theory Spec2Isabelle
  imports Complex_Main "HOL-Library.Sublist" "HOL-Library.AList"
begin

section \<open>Python strings and numbers\<close>

text \<open>
  A Python \<open>str\<close> is modelled as a \<open>string\<close> whose characters are ASCII code points.
  Code points above 127 (for which \<open>str.lower\<close>, \<open>str.isspace\<close> and the \<open>re\<close> character
  classes follow the Unicode tables) are outside the model.
  A Python \<open>float\<close> is modelled by the real number a finite double denotes; the literal
  \<open>0.3\<close> is not representable and stands for the nearest double.
\<close>

definition code :: "char \<Rightarrow> nat" where
  "code c = of_char c"

definition is_upper :: "char \<Rightarrow> bool" where
  "is_upper c = (65 \<le> code c \<and> code c \<le> 90)"

definition is_lower :: "char \<Rightarrow> bool" where
  "is_lower c = (97 \<le> code c \<and> code c \<le> 122)"

definition is_alpha :: "char \<Rightarrow> bool" where
  "is_alpha c = (is_upper c \<or> is_lower c)"

definition is_digit :: "char \<Rightarrow> bool" where
  "is_digit c = (48 \<le> code c \<and> code c \<le> 57)"

text \<open>\<open>str.isspace\<close> on ASCII: tab, newline, vertical tab, form feed, carriage return,
  the four separators \<open>0x1c\<close> to \<open>0x1f\<close>, and the space.\<close>

definition is_space :: "char \<Rightarrow> bool" where
  "is_space c = ((9 \<le> code c \<and> code c \<le> 13) \<or> (28 \<le> code c \<and> code c \<le> 32))"

definition lower_char :: "char \<Rightarrow> char" where
  "lower_char c = (if is_upper c then char_of (code c + 32) else c)"

definition upper_char :: "char \<Rightarrow> char" where
  "upper_char c = (if is_lower c then char_of (code c - 32) else c)"

text \<open>\<open>s.lower()\<close>, \<open>s.upper()\<close> and \<open>s.strip()\<close>.\<close>

definition lower :: "string \<Rightarrow> string" where
  "lower s = map lower_char s"

definition upper :: "string \<Rightarrow> string" where
  "upper s = map upper_char s"

definition lstrip :: "string \<Rightarrow> string" where
  "lstrip s = dropWhile is_space s"

definition rstrip :: "string \<Rightarrow> string" where
  "rstrip s = rev (dropWhile is_space (rev s))"

definition strip :: "string \<Rightarrow> string" where
  "strip s = rstrip (lstrip s)"

text \<open>The double nearest to \<open>0.3\<close>: \<open>0x3FD3333333333333\<close>.\<close>

definition float_0_3 :: real where
  "float_0_3 = 5404319552844595 / 2 ^ 54"

text \<open>Exceptions (the instances of \<open>Exception\<close>, which \<open>except Exception\<close> catches), by
  class.\<close>

datatype exn =
    ValueError
  | IndexError
  | KeyError
  | AttributeError
  | TypeError
  | HTTPException nat string
  | OtherException string


section \<open>classifier.py: the rule engine\<close>

definition DOCUMENT_TYPES :: "string list" where
  "DOCUMENT_TYPES = [''Invoice'', ''Resume'', ''Utility Bill'', ''Other'', ''Unclassifiable'']"

definition hypothesis_template :: string where
  "hypothesis_template = ''This document is a {}.''"

definition invoice_keywords :: "string list" where
  "invoice_keywords =
    [''invoice'', ''invoice number'', ''invoice #'', ''bill to'',
     ''total amount'', ''amount due'', ''payment terms'', ''subtotal'',
     ''tax'', ''vat'', ''due date'']"

definition resume_keywords :: "string list" where
  "resume_keywords =
    [''resume'', ''curriculum vitae'', ''cv'', ''experience'',
     ''education'', ''skills'', ''objective'', ''professional summary'',
     ''work history'', ''employment'', ''qualifications'']"

definition utility_keywords :: "string list" where
  "utility_keywords =
    [''utility'', ''electric'', ''electricity'', ''gas'', ''water'',
     ''kwh'', ''kilowatt'', ''meter'', ''usage'', ''service address'',
     ''account number'', ''billing period'', ''current charges'']"

text \<open>\<open>sum(1 for kw in keywords if kw in text_lower)\<close>; \<open>kw in s\<close> is the contiguous
  substring test \<^const>\<open>sublist\<close>.\<close>

definition keyword_count :: "string list \<Rightarrow> string \<Rightarrow> nat" where
  "keyword_count keywords text_lower = sum_list [1. kw \<leftarrow> keywords, sublist kw text_lower]"

definition invoice_count :: "string \<Rightarrow> nat" where
  "invoice_count text = keyword_count invoice_keywords (lower text)"

definition resume_count :: "string \<Rightarrow> nat" where
  "resume_count text = keyword_count resume_keywords (lower text)"

definition utility_count :: "string \<Rightarrow> nat" where
  "utility_count text = keyword_count utility_keywords (lower text)"

text \<open>\<open>DocumentClassifier._apply_rules\<close>.\<close>

definition apply_rules :: "string \<Rightarrow> string \<Rightarrow> real \<Rightarrow> string" where
  "apply_rules text predicted_class confidence =
    (if invoice_count text \<ge> 3 \<and> predicted_class \<noteq> ''Invoice'' then ''Invoice''
     else if resume_count text \<ge> 3 \<and> predicted_class \<noteq> ''Resume'' then ''Resume''
     else if utility_count text \<ge> 3 \<and> predicted_class \<noteq> ''Utility Bill'' then ''Utility Bill''
     else if confidence < 0.5
            \<and> max (invoice_count text) (max (resume_count text) (utility_count text)) < 2
       then ''Other''
     else predicted_class)"

text \<open>\<open>DocumentClassifier.classify\<close>. The zero-shot pipeline is an external service: a
  function of the text sample, the candidate labels and the hypothesis template that
  raises or returns the ranked labels with their scores. The model records, next to the
  returned label, which collaborators were invoked and with what.\<close>

record clf_result =
  labels :: "string list"
  scores :: "real list"

type_synonym classifier = "string \<Rightarrow> string list \<Rightarrow> string \<Rightarrow> exn + clf_result"

datatype event =
    ClassifierCall string
  | RuleEngineCall string string real

text \<open>The body of the \<open>try\<close> block; \<open>result['labels'][0]\<close> and \<open>result['scores'][0]\<close>
  raise \<open>IndexError\<close> on an empty list.\<close>

definition classify_try :: "classifier \<Rightarrow> string \<Rightarrow> (exn + string) \<times> event list" where
  "classify_try clf text =
    (let text_sample = take 2000 text in
     case clf text_sample DOCUMENT_TYPES hypothesis_template of
       Inl e \<Rightarrow> (Inl e, [ClassifierCall text_sample])
     | Inr result \<Rightarrow>
        (case labels result of
           [] \<Rightarrow> (Inl IndexError, [ClassifierCall text_sample])
         | predicted_class # _ \<Rightarrow>
            (case scores result of
               [] \<Rightarrow> (Inl IndexError, [ClassifierCall text_sample])
             | confidence # _ \<Rightarrow>
                 if confidence < float_0_3
                 then (Inr ''Unclassifiable'', [ClassifierCall text_sample])
                 else (Inr (apply_rules text predicted_class confidence),
                       [ClassifierCall text_sample,
                        RuleEngineCall text predicted_class confidence]))))"

text \<open>The guard, and \<open>except Exception\<close> around the body.\<close>

definition classify :: "classifier \<Rightarrow> string \<Rightarrow> string \<Rightarrow> string \<times> event list" where
  "classify clf text filename =
    (if text = [] \<or> length (strip text) < 10 then (''Unclassifiable'', [])
     else case classify_try clf text of
            (Inl e, trace) \<Rightarrow> (''Unclassifiable'', trace)
          | (Inr label, trace) \<Rightarrow> (label, trace))"


section \<open>The regular expressions of extractor.py\<close>

text \<open>
  The patterns use character classes, sequence, ordered alternation, greedy repetition
  of a character class, optional parts, one capturing group and the word boundary.
  \<open>re\<close> matches by backtracking; the matcher below returns, for a pattern and a position,
  every way the pattern can match there, in the order in which backtracking tries them,
  so that the head of the list is the match \<open>re\<close> reports. A position is the character
  before it (for \<open>\b\<close>), the rest of the input, and the groups captured so far.
\<close>

datatype regex =
    Eps
  | Chr "char \<Rightarrow> bool"
  | Seq regex regex
  | Alt regex regex
  | Opt regex
  | Rep "char \<Rightarrow> bool" nat "nat option"
  | Group string regex
  | WordB

type_synonym mstate = "char option \<times> string \<times> (string \<times> string) list"

text \<open>\<open>\w\<close> on ASCII, and the test of \<open>\b\<close>.\<close>

definition is_word :: "char \<Rightarrow> bool" where
  "is_word c = (is_alpha c \<or> is_digit c \<or> c = CHR ''_'')"

definition at_boundary :: "char option \<Rightarrow> string \<Rightarrow> bool" where
  "at_boundary prev rest =
    ((case prev of None \<Rightarrow> False | Some c \<Rightarrow> is_word c)
       \<noteq> (case rest of [] \<Rightarrow> False | c # cs \<Rightarrow> is_word c))"

text \<open>Greedy \<open>p{lo,hi}\<close> with \<open>k\<close> characters taken already: the longer runs first.\<close>

fun greedy :: "(char \<Rightarrow> bool) \<Rightarrow> nat \<Rightarrow> nat option \<Rightarrow> nat \<Rightarrow> mstate \<Rightarrow> mstate list" where
  "greedy p lo hi k (prev, [], g) = (if lo \<le> k then [(prev, [], g)] else [])"
| "greedy p lo hi k (prev, c # cs, g) =
    (if p c \<and> (case hi of None \<Rightarrow> True | Some h \<Rightarrow> k < h)
     then greedy p lo hi (Suc k) (Some c, cs, g) else [])
    @ (if lo \<le> k then [(prev, c # cs, g)] else [])"

fun rmatch :: "regex \<Rightarrow> mstate \<Rightarrow> mstate list" where
  "rmatch Eps st = [st]"
| "rmatch (Chr p) (prev, [], g) = []"
| "rmatch (Chr p) (prev, c # cs, g) = (if p c then [(Some c, cs, g)] else [])"
| "rmatch (Seq r1 r2) st = concat (map (rmatch r2) (rmatch r1 st))"
| "rmatch (Alt r1 r2) st = rmatch r1 st @ rmatch r2 st"
| "rmatch (Opt r) st = rmatch r st @ [st]"
| "rmatch (Rep p lo hi) st = greedy p lo hi 0 st"
| "rmatch (Group name r) (prev, rest, g) =
    map (\<lambda>(prev', rest', g'). (prev', rest', (name, take (length rest - length rest') rest) # g'))
      (rmatch r (prev, rest, g))"
| "rmatch WordB (prev, rest, g) = (if at_boundary prev rest then [(prev, rest, g)] else [])"

text \<open>A match object: \<open>group(0)\<close>, the captured groups, and what follows the match.\<close>

record re_match =
  group0 :: string
  groups :: "(string \<times> string) list"
  after_match :: string

definition group :: "re_match \<Rightarrow> string \<Rightarrow> string option" where
  "group m name = map_of (groups m) name"

text \<open>\<open>pattern.match\<close> at a position, and \<open>re.search\<close>: the leftmost position at which
  the pattern matches, the end of the text included.\<close>

definition match_at :: "regex \<Rightarrow> char option \<Rightarrow> string \<Rightarrow> re_match option" where
  "match_at r prev rest =
    (case rmatch r (prev, rest, []) of
       [] \<Rightarrow> None
     | (prev', rest', g) # others \<Rightarrow>
         Some \<lparr>group0 = take (length rest - length rest') rest, groups = g,
               after_match = rest'\<rparr>)"

fun search_from :: "regex \<Rightarrow> char option \<Rightarrow> string \<Rightarrow> re_match option" where
  "search_from r prev [] = match_at r prev []"
| "search_from r prev (c # cs) =
    (case match_at r prev (c # cs) of
       Some m \<Rightarrow> Some m
     | None \<Rightarrow> search_from r (Some c) cs)"

definition re_search :: "regex \<Rightarrow> string \<Rightarrow> re_match option" where
  "re_search r s = search_from r None s"

text \<open>\<open>re.IGNORECASE\<close>: a character matches when one of its two cases does.\<close>

definition any_case :: "(char \<Rightarrow> bool) \<Rightarrow> char \<Rightarrow> bool" where
  "any_case p c = (p (lower_char c) \<or> p (upper_char c))"

fun ignorecase :: "regex \<Rightarrow> regex" where
  "ignorecase Eps = Eps"
| "ignorecase (Chr p) = Chr (any_case p)"
| "ignorecase (Seq r1 r2) = Seq (ignorecase r1) (ignorecase r2)"
| "ignorecase (Alt r1 r2) = Alt (ignorecase r1) (ignorecase r2)"
| "ignorecase (Opt r) = Opt (ignorecase r)"
| "ignorecase (Rep p lo hi) = Rep (any_case p) lo hi"
| "ignorecase (Group name r) = Group name (ignorecase r)"
| "ignorecase WordB = WordB"

text \<open>Writing patterns: a literal string, a sequence, alternatives, one character out of
  a set, and the usual quantifiers on a class.\<close>

fun lit :: "string \<Rightarrow> regex" where
  "lit [] = Eps"
| "lit (c # cs) = Seq (Chr (\<lambda>x. x = c)) (lit cs)"

fun seqs :: "regex list \<Rightarrow> regex" where
  "seqs [] = Eps"
| "seqs [r] = r"
| "seqs (r # rs) = Seq r (seqs rs)"

fun alts :: "regex list \<Rightarrow> regex" where
  "alts [] = Chr (\<lambda>x. False)"
| "alts [r] = r"
| "alts (r # rs) = Alt r (alts rs)"

definition one_of :: "string \<Rightarrow> char \<Rightarrow> bool" where
  "one_of cs c = (c \<in> set cs)"

definition many :: "(char \<Rightarrow> bool) \<Rightarrow> regex" where
  "many p = Rep p 0 None"

definition many1 :: "(char \<Rightarrow> bool) \<Rightarrow> regex" where
  "many1 p = Rep p 1 None"

definition exactly :: "(char \<Rightarrow> bool) \<Rightarrow> nat \<Rightarrow> regex" where
  "exactly p n = Rep p n (Some n)"


section \<open>extractor.py: dates\<close>

text \<open>\<open>self.date_patterns\<close>.\<close>

definition month_prefix :: regex where
  "month_prefix =
    alts (map lit [''Jan'', ''Feb'', ''Mar'', ''Apr'', ''May'', ''Jun'',
                   ''Jul'', ''Aug'', ''Sep'', ''Oct'', ''Nov'', ''Dec''])"

definition iso_date_pattern :: regex where
  "iso_date_pattern =
    seqs [exactly is_digit 4, lit ''-'', exactly is_digit 2, lit ''-'', exactly is_digit 2]"

definition slash_date_pattern :: regex where
  "slash_date_pattern =
    seqs [exactly is_digit 2, lit ''/'', exactly is_digit 2, lit ''/'', exactly is_digit 4]"

definition dash_date_pattern :: regex where
  "dash_date_pattern =
    seqs [exactly is_digit 2, lit ''-'', exactly is_digit 2, lit ''-'', exactly is_digit 4]"

definition month_date_pattern :: regex where
  "month_date_pattern =
    seqs [month_prefix, many is_lower, many1 is_space, Rep is_digit 1 (Some 2),
          Opt (lit '',''), many1 is_space, exactly is_digit 4]"

definition date_patterns :: "regex list" where
  "date_patterns =
    [iso_date_pattern, slash_date_pattern, dash_date_pattern, month_date_pattern]"

text \<open>
  \<open>datetime.strptime\<close>. The format is turned into a pattern (\<open>_strptime.TimeRE\<close>): a
  directive becomes a named group, a blank becomes \<open>\s+\<close>, anything else stands for
  itself; the pattern is matched at the start of the string, ignoring case, and must use
  the string up. The month names of \<open>%B\<close> come longest first.
\<close>

definition month_names :: "string list" where
  "month_names =
    [''january'', ''february'', ''march'', ''april'', ''may'', ''june'',
     ''july'', ''august'', ''september'', ''october'', ''november'', ''december'']"

definition month_abbrs :: "string list" where
  "month_abbrs =
    [''jan'', ''feb'', ''mar'', ''apr'', ''may'', ''jun'',
     ''jul'', ''aug'', ''sep'', ''oct'', ''nov'', ''dec'']"

definition in_range :: "char \<Rightarrow> char \<Rightarrow> char \<Rightarrow> bool" where
  "in_range lo hi c = (code lo \<le> code c \<and> code c \<le> code hi)"

definition directive :: "char \<Rightarrow> regex" where
  "directive d =
    (if d = CHR ''Y'' then Group ''Y'' (exactly is_digit 4)
     else if d = CHR ''m'' then
       Group ''m'' (alts [Seq (lit ''1'') (Chr (in_range (CHR ''0'') (CHR ''2''))),
                         Seq (lit ''0'') (Chr (in_range (CHR ''1'') (CHR ''9''))),
                         Chr (in_range (CHR ''1'') (CHR ''9''))])
     else if d = CHR ''d'' then
       Group ''d'' (alts [Seq (lit ''3'') (Chr (in_range (CHR ''0'') (CHR ''1''))),
                         Seq (Chr (in_range (CHR ''1'') (CHR ''2''))) (Chr is_digit),
                         Seq (lit ''0'') (Chr (in_range (CHR ''1'') (CHR ''9''))),
                         Chr (in_range (CHR ''1'') (CHR ''9'')),
                         Seq (lit '' '') (Chr (in_range (CHR ''1'') (CHR ''9'')))])
     else if d = CHR ''B'' then
       Group ''B'' (alts (map lit
         [''september'', ''february'', ''november'', ''december'', ''january'', ''october'',
          ''august'', ''march'', ''april'', ''june'', ''july'', ''may'']))
     else if d = CHR ''b'' then Group ''b'' (alts (map lit month_abbrs))
     else Chr (\<lambda>x. False))"

fun format_regex :: "string \<Rightarrow> regex" where
  "format_regex [] = Eps"
| "format_regex [c] = (if c = CHR '' '' then many1 is_space else lit [c])"
| "format_regex (c # d # cs) =
    (if c = CHR ''%'' then Seq (directive d) (format_regex cs)
     else if c = CHR '' '' then Seq (many1 is_space) (format_regex (d # cs))
     else Seq (lit [c]) (format_regex (d # cs)))"

text \<open>\<open>int\<close> of a string of digits, and the position of a name in a list, from 1.\<close>

definition digit_value :: "char \<Rightarrow> nat" where
  "digit_value c = code c - 48"

definition int_of_digits :: "string \<Rightarrow> nat" where
  "int_of_digits s = foldl (\<lambda>n c. 10 * n + digit_value c) 0 s"

fun index_from :: "nat \<Rightarrow> string list \<Rightarrow> string \<Rightarrow> nat option" where
  "index_from i [] x = None"
| "index_from i (y # ys) x = (if x = y then Some i else index_from (Suc i) ys x)"

text \<open>The calendar: a \<open>date\<close> exists for the years 1 to 9999.\<close>

definition is_leap :: "nat \<Rightarrow> bool" where
  "is_leap y = (y mod 4 = 0 \<and> (y mod 100 \<noteq> 0 \<or> y mod 400 = 0))"

definition days_in_month :: "nat \<Rightarrow> nat \<Rightarrow> nat" where
  "days_in_month y m =
    (if m = 2 then (if is_leap y then 29 else 28)
     else if m \<in> {4, 6, 9, 11} then 30 else 31)"

definition valid_date :: "nat \<Rightarrow> nat \<Rightarrow> nat \<Rightarrow> bool" where
  "valid_date y m d =
    (1 \<le> y \<and> y \<le> 9999 \<and> 1 \<le> m \<and> m \<le> 12 \<and> 1 \<le> d \<and> d \<le> days_in_month y m)"

text \<open>The fields a match of the format pattern gives; a directive that the format
  lacks leaves the default (1900, 1, 1).\<close>

definition parsed_year :: "re_match \<Rightarrow> nat" where
  "parsed_year m = (case group m ''Y'' of Some s \<Rightarrow> int_of_digits s | None \<Rightarrow> 1900)"

definition parsed_month :: "re_match \<Rightarrow> nat" where
  "parsed_month m =
    (case group m ''m'' of
       Some s \<Rightarrow> int_of_digits s
     | None \<Rightarrow>
        (case group m ''B'' of
           Some s \<Rightarrow> (case index_from 1 month_names (lower s) of Some i \<Rightarrow> i | None \<Rightarrow> 0)
         | None \<Rightarrow>
            (case group m ''b'' of
               Some s \<Rightarrow> (case index_from 1 month_abbrs (lower s) of Some i \<Rightarrow> i | None \<Rightarrow> 0)
             | None \<Rightarrow> 1)))"

definition parsed_day :: "re_match \<Rightarrow> nat" where
  "parsed_day m = (case group m ''d'' of Some s \<Rightarrow> int_of_digits (lstrip s) | None \<Rightarrow> 1)"

definition strptime :: "string \<Rightarrow> string \<Rightarrow> exn + nat \<times> nat \<times> nat" where
  "strptime date_str fmt =
    (case match_at (ignorecase (format_regex fmt)) None date_str of
       None \<Rightarrow> Inl ValueError
     | Some m \<Rightarrow>
        if after_match m \<noteq> [] then Inl ValueError
        else if valid_date (parsed_year m) (parsed_month m) (parsed_day m)
        then Inr (parsed_year m, parsed_month m, parsed_day m)
        else Inl ValueError)"

text \<open>\<open>dt.strftime('%Y-%m-%d')\<close>: month and day with two digits, the year in decimal
  as the C library writes it (glibc does not pad a year below 1000 with zeros).\<close>

definition digit_char :: "nat \<Rightarrow> char" where
  "digit_char n = ''0123456789'' ! (n mod 10)"

definition year_digits :: "nat \<Rightarrow> string" where
  "year_digits y =
    dropWhile (\<lambda>c. c = CHR ''0'')
      [digit_char (y div 1000), digit_char (y div 100), digit_char (y div 10), digit_char y]"

definition strftime_ymd :: "nat \<times> nat \<times> nat \<Rightarrow> string" where
  "strftime_ymd = (\<lambda>(y, m, d).
    year_digits y
    @ ''-'' @ [digit_char (m div 10), digit_char m]
    @ ''-'' @ [digit_char (d div 10), digit_char d])"

text \<open>\<open>DataExtractor._normalize_date\<close>: \<open>ValueError\<close> moves on to the next format, any
  other exception would leave the method.\<close>

definition date_formats :: "string list" where
  "date_formats =
    [''%Y-%m-%d'', ''%m/%d/%Y'', ''%d-%m-%Y'', ''%B %d, %Y'', ''%b %d, %Y'',
     ''%B %d %Y'', ''%b %d %Y'']"

fun try_formats :: "string \<Rightarrow> string list \<Rightarrow> exn + string option" where
  "try_formats date_str [] = Inr None"
| "try_formats date_str (fmt # fmts) =
    (case strptime date_str fmt of
       Inr dt \<Rightarrow> Inr (Some (strftime_ymd dt))
     | Inl ValueError \<Rightarrow> try_formats date_str fmts
     | Inl e \<Rightarrow> Inl e)"

definition normalize_date :: "string \<Rightarrow> exn + string option" where
  "normalize_date date_str = try_formats date_str date_formats"

text \<open>\<open>DataExtractor._extract_date\<close>: a pattern whose match does not normalize (\<open>None\<close>,
  or an empty string) does not end the loop.\<close>

fun extract_date_loop :: "regex list \<Rightarrow> string \<Rightarrow> exn + string option" where
  "extract_date_loop [] text = Inr None"
| "extract_date_loop (pattern # patterns) text =
    (case re_search (ignorecase pattern) text of
       None \<Rightarrow> extract_date_loop patterns text
     | Some m \<Rightarrow>
        (case normalize_date (group0 m) of
           Inl e \<Rightarrow> Inl e
         | Inr None \<Rightarrow> extract_date_loop patterns text
         | Inr (Some normalized) \<Rightarrow>
             if normalized \<noteq> [] then Inr (Some normalized)
             else extract_date_loop patterns text))"

definition extract_date :: "string \<Rightarrow> exn + string option" where
  "extract_date text = extract_date_loop date_patterns text"


section \<open>extractor.py: the fields\<close>

text \<open>The values of a record, and the record as a dictionary in insertion order.\<close>

datatype field_value = Str string | Float real | Integer int

type_synonym fields = "(string \<times> field_value) list"

text \<open>\<open>if value: data[key] = f(value)\<close>, for a value that may be \<open>None\<close>.\<close>

definition assign_if :: "'a option \<Rightarrow> ('a \<Rightarrow> bool) \<Rightarrow> string \<Rightarrow> ('a \<Rightarrow> field_value) \<Rightarrow> fields \<Rightarrow> fields" where
  "assign_if v truthy key f data =
    (case v of
       None \<Rightarrow> data
     | Some x \<Rightarrow> if truthy x then AList.update key (f x) data else data)"

definition nonempty :: "string \<Rightarrow> bool" where
  "nonempty s = (s \<noteq> [])"

definition nonzero :: "'a::zero \<Rightarrow> bool" where
  "nonzero x = (x \<noteq> 0)"

text \<open>
  \<open>float\<close> and \<open>int\<close> of a string, for the strings the patterns capture: digits, with at
  most one point for \<open>float\<close>. Any other string is answered with \<open>ValueError\<close>; signs,
  exponents, blanks, underscores and the special values are not modelled, and neither is
  the rounding of the value to a double nor the length limit of \<open>int\<close>.
\<close>

definition py_float :: "string \<Rightarrow> exn + real" where
  "py_float s =
    (let whole = takeWhile is_digit s; rest = dropWhile is_digit s in
     case rest of
       [] \<Rightarrow> if whole = [] then Inl ValueError else Inr (real (int_of_digits whole))
     | c # decimals \<Rightarrow>
         if c = CHR ''.'' \<and> list_all is_digit decimals \<and> (whole \<noteq> [] \<or> decimals \<noteq> [])
         then Inr (real (int_of_digits whole) + real (int_of_digits decimals) / 10 ^ length decimals)
         else Inl ValueError)"

definition py_int :: "string \<Rightarrow> exn + int" where
  "py_int s =
    (if s \<noteq> [] \<and> list_all is_digit s then Inr (int (int_of_digits s)) else Inl ValueError)"

text \<open>The patterns of \<open>_compile_patterns\<close> and of \<open>_extract_company_name\<close>.\<close>

definition id_chars :: "char \<Rightarrow> bool" where
  "id_chars c = (is_upper c \<or> is_digit c \<or> c = CHR ''-'')"

definition colon_then_id :: "regex list" where
  "colon_then_id = [many is_space, Opt (lit '':''), many is_space, Group ''1'' (many1 id_chars)]"

definition invoice_number_patterns :: "regex list" where
  "invoice_number_patterns =
    [seqs ([lit ''invoice'', many is_space, Opt (lit ''#'')] @ colon_then_id),
     seqs ([lit ''inv'', many is_space, Opt (lit ''#'')] @ colon_then_id),
     seqs ([lit ''invoice'', many is_space, lit ''number''] @ colon_then_id)]"

definition money :: "regex list" where
  "money =
    [many is_space, Opt (lit '':''), many is_space, Opt (lit ''$''), many is_space,
     Group ''1'' (seqs [many1 (\<lambda>c. is_digit c \<or> c = CHR '',''), Opt (lit ''.''), many is_digit])]"

definition amount_patterns :: "regex list" where
  "amount_patterns =
    [seqs ([lit ''total'', many is_space, lit ''amount''] @ money),
     seqs ([lit ''amount'', many is_space, lit ''due''] @ money),
     seqs ([lit ''total''] @ money),
     seqs ([lit ''grand'', many is_space, lit ''total''] @ money)]"

definition email_pattern :: regex where
  "email_pattern =
    seqs [WordB,
          many1 (\<lambda>c. is_alpha c \<or> is_digit c \<or> one_of ''._%+-'' c),
          lit ''@'',
          many1 (\<lambda>c. is_alpha c \<or> is_digit c \<or> one_of ''.-'' c),
          lit ''.'',
          Rep (\<lambda>c. is_alpha c \<or> c = CHR ''|'') 2 None,
          WordB]"

definition phone_sep :: "char \<Rightarrow> bool" where
  "phone_sep c = (one_of ''-.'' c \<or> is_space c)"

definition phone_patterns :: "regex list" where
  "phone_patterns =
    [seqs [Opt (lit ''+''), Rep is_digit 1 (Some 3), Opt (Chr phone_sep), Opt (lit ''(''),
           exactly is_digit 3, Opt (lit '')''), Opt (Chr phone_sep), exactly is_digit 3,
           Opt (Chr phone_sep), exactly is_digit 4],
     seqs [exactly is_digit 3, lit ''-'', exactly is_digit 3, lit ''-'', exactly is_digit 4],
     seqs [lit ''('', exactly is_digit 3, lit '')'', many is_space, exactly is_digit 3, lit ''-'',
           exactly is_digit 4]]"

definition account_number_pattern :: regex where
  "account_number_pattern = seqs ([lit ''account'', many is_space, lit ''number''] @ colon_then_id)"

definition usage_pattern :: regex where
  "usage_pattern =
    seqs [Group ''1'' (seqs [many1 is_digit, Opt (lit ''.''), many is_digit]), many is_space,
          lit ''kwh'']"

definition experience_patterns :: "regex list" where
  "experience_patterns =
    [seqs [Group ''1'' (many1 is_digit), many is_space, Opt (lit ''+''), many is_space,
           lit ''year'', Opt (lit ''s''), many is_space, Opt (lit ''of''), many is_space,
           lit ''experience''],
     seqs [lit ''experience'', many is_space, Opt (lit '':''), many is_space,
           Group ''1'' (many1 is_digit), many is_space, Opt (lit ''+''), many is_space,
           lit ''year'', Opt (lit ''s'')]]"

definition company_pattern :: regex where
  "company_pattern =
    Group ''1''
      (seqs [Chr is_upper,
             many1 (\<lambda>c. is_alpha c \<or> is_space c \<or> c = CHR ''&''),
             alts (map lit [''Inc'', ''LLC'', ''Ltd'', ''Corporation'', ''Corp'', ''Company'',
                            ''Co'']),
             Opt (lit ''.'')])"

text \<open>\<open>match.group(1)\<close> is \<open>None\<close> for a group that took no part in the match, and a
  method called on it raises \<open>AttributeError\<close>.\<close>

definition group1 :: "re_match \<Rightarrow> exn + string" where
  "group1 m = (case group m ''1'' of None \<Rightarrow> Inl AttributeError | Some s \<Rightarrow> Inr s)"

text \<open>\<open>DataExtractor._extract_with_patterns\<close>, on the lowercased text.\<close>

fun with_patterns_loop :: "string \<Rightarrow> regex list \<Rightarrow> exn + string option" where
  "with_patterns_loop text_lower [] = Inr None"
| "with_patterns_loop text_lower (pattern # patterns) =
    (case re_search (ignorecase pattern) text_lower of
       Some m \<Rightarrow> (case group1 m of Inl e \<Rightarrow> Inl e | Inr s \<Rightarrow> Inr (Some (strip s)))
     | None \<Rightarrow> with_patterns_loop text_lower patterns)"

definition extract_with_patterns :: "string \<Rightarrow> regex list \<Rightarrow> exn + string option" where
  "extract_with_patterns text patterns = with_patterns_loop (lower text) patterns"

text \<open>\<open>DataExtractor._extract_amount\<close>: \<open>ValueError\<close> moves on to the next pattern.\<close>

fun amount_loop :: "string \<Rightarrow> regex list \<Rightarrow> exn + real option" where
  "amount_loop text_lower [] = Inr None"
| "amount_loop text_lower (pattern # patterns) =
    (case re_search (ignorecase pattern) text_lower of
       None \<Rightarrow> amount_loop text_lower patterns
     | Some m \<Rightarrow>
        (case group1 m of
           Inl e \<Rightarrow> Inl e
         | Inr s \<Rightarrow>
            (case py_float (filter (\<lambda>c. c \<noteq> CHR '','') s) of
               Inr amount \<Rightarrow> Inr (Some amount)
             | Inl ValueError \<Rightarrow> amount_loop text_lower patterns
             | Inl e \<Rightarrow> Inl e)))"

definition extract_amount :: "string \<Rightarrow> exn + real option" where
  "extract_amount text = amount_loop (lower text) amount_patterns"

text \<open>\<open>DataExtractor._extract_company_name\<close>.\<close>

definition extract_company_name :: "string \<Rightarrow> exn + string option" where
  "extract_company_name text =
    (case re_search company_pattern text of
       Some m \<Rightarrow> (case group1 m of Inl e \<Rightarrow> Inl e | Inr s \<Rightarrow> Inr (Some (strip s)))
     | None \<Rightarrow> Inr None)"

text \<open>\<open>text.split('\n')\<close> and \<open>line.split()\<close>.\<close>

fun split_lines :: "string \<Rightarrow> string list" where
  "split_lines [] = [[]]"
| "split_lines (c # cs) =
    (if c = CHR 0x0A then [] # split_lines cs
     else (case split_lines cs of
             [] \<Rightarrow> [[c]]
           | l # ls \<Rightarrow> (c # l) # ls))"

fun split_words :: "string \<Rightarrow> string \<Rightarrow> string list" where
  "split_words w [] = (if w = [] then [] else [w])"
| "split_words w (c # cs) =
    (if is_space c then (if w = [] then split_words [] cs else w # split_words [] cs)
     else split_words (w @ [c]) cs)"

definition py_split :: "string \<Rightarrow> string list" where
  "py_split s = split_words [] s"

text \<open>\<open>DataExtractor._extract_name\<close>: \<open>w[0]\<close> is read only of a word that is not empty.\<close>

definition capitalized :: "string \<Rightarrow> bool" where
  "capitalized w =
    (case w of
       [] \<Rightarrow> True
     | c # cs \<Rightarrow> if is_alpha c then is_upper c else True)"

definition name_headers :: "string list" where
  "name_headers = [''resume'', ''cv'', ''curriculum'']"

fun name_loop :: "string list \<Rightarrow> string option" where
  "name_loop [] = None"
| "name_loop (line # lines) =
    (let words = py_split (strip line) in
     if 2 \<le> length words \<and> length words \<le> 4
        \<and> list_all capitalized words
        \<and> \<not> list_ex (\<lambda>header. sublist header (lower line)) name_headers
     then Some (strip line)
     else name_loop lines)"

definition extract_name :: "string \<Rightarrow> string option" where
  "extract_name text = name_loop (take 5 (split_lines text))"

text \<open>\<open>_extract_email\<close>, \<open>_extract_phone\<close>, \<open>_extract_experience_years\<close>,
  \<open>_extract_usage\<close>.\<close>

definition extract_email :: "string \<Rightarrow> string option" where
  "extract_email text = map_option group0 (re_search email_pattern text)"

fun phone_loop :: "string \<Rightarrow> regex list \<Rightarrow> string option" where
  "phone_loop text [] = None"
| "phone_loop text (pattern # patterns) =
    (case re_search pattern text of
       Some m \<Rightarrow> Some (group0 m)
     | None \<Rightarrow> phone_loop text patterns)"

definition extract_phone :: "string \<Rightarrow> string option" where
  "extract_phone text = phone_loop text phone_patterns"

fun experience_loop :: "string \<Rightarrow> regex list \<Rightarrow> exn + int option" where
  "experience_loop text_lower [] = Inr None"
| "experience_loop text_lower (pattern # patterns) =
    (case re_search pattern text_lower of
       None \<Rightarrow> experience_loop text_lower patterns
     | Some m \<Rightarrow>
        (case group m ''1'' of
           None \<Rightarrow> Inl TypeError
         | Some s \<Rightarrow>
            (case py_int s of
               Inr years \<Rightarrow> Inr (Some years)
             | Inl ValueError \<Rightarrow> experience_loop text_lower patterns
             | Inl e \<Rightarrow> Inl e)))"

definition extract_experience_years :: "string \<Rightarrow> exn + int option" where
  "extract_experience_years text = experience_loop (lower text) experience_patterns"

definition extract_usage :: "string \<Rightarrow> exn + real option" where
  "extract_usage text =
    (case re_search usage_pattern (lower text) of
       None \<Rightarrow> Inr None
     | Some m \<Rightarrow>
        (case group m ''1'' of
           None \<Rightarrow> Inl TypeError
         | Some s \<Rightarrow>
            (case py_float s of
               Inr usage \<Rightarrow> Inr (Some usage)
             | Inl ValueError \<Rightarrow> Inr None
             | Inl e \<Rightarrow> Inl e)))"

text \<open>The three extractors and \<open>DataExtractor.extract\<close> (an Isabelle keyword, hence the
  longer name). An exception of a helper leaves
  the extractor at that point.\<close>

definition extract_invoice :: "string \<Rightarrow> exn + fields" where
  "extract_invoice text =
    (case extract_with_patterns text invoice_number_patterns of
       Inl e \<Rightarrow> Inl e
     | Inr invoice_number \<Rightarrow>
    (case extract_date text of
       Inl e \<Rightarrow> Inl e
     | Inr date \<Rightarrow>
    (case extract_company_name text of
       Inl e \<Rightarrow> Inl e
     | Inr company \<Rightarrow>
    (case extract_amount text of
       Inl e \<Rightarrow> Inl e
     | Inr amount \<Rightarrow>
        Inr (assign_if amount nonzero ''total_amount'' Float
            (assign_if company nonempty ''company'' Str
            (assign_if date nonempty ''date'' Str
            (assign_if invoice_number nonempty ''invoice_number'' (\<lambda>n. Str (upper n))
               []))))))))"

definition extract_resume :: "string \<Rightarrow> exn + fields" where
  "extract_resume text =
    (case extract_experience_years text of
       Inl e \<Rightarrow> Inl e
     | Inr experience \<Rightarrow>
        Inr (assign_if experience nonzero ''experience_years'' Integer
            (assign_if (extract_phone text) nonempty ''phone'' Str
            (assign_if (extract_email text) nonempty ''email'' Str
            (assign_if (extract_name text) nonempty ''name'' Str [])))))"

definition extract_utility_bill :: "string \<Rightarrow> exn + fields" where
  "extract_utility_bill text =
    (case extract_with_patterns text [account_number_pattern] of
       Inl e \<Rightarrow> Inl e
     | Inr account \<Rightarrow>
    (case extract_date text of
       Inl e \<Rightarrow> Inl e
     | Inr date \<Rightarrow>
    (case extract_usage text of
       Inl e \<Rightarrow> Inl e
     | Inr usage \<Rightarrow>
    (case extract_amount text of
       Inl e \<Rightarrow> Inl e
     | Inr amount \<Rightarrow>
        Inr (assign_if amount nonzero ''amount_due'' Float
            (assign_if usage nonzero ''usage_kwh'' Float
            (assign_if date nonempty ''date'' Str
            (assign_if account nonempty ''account_number'' (\<lambda>a. Str (upper a)) []))))))))"

definition extract_by_type :: "string \<Rightarrow> string \<Rightarrow> exn + fields" where
  "extract_by_type text doc_type =
    (if doc_type = ''Invoice'' then extract_invoice text
     else if doc_type = ''Resume'' then extract_resume text
     else if doc_type = ''Utility Bill'' then extract_utility_bill text
     else Inr [])"


section \<open>retrieval.py: the index manager\<close>

text \<open>\<open>round(x, ndigits)\<close> on a float: the decimal with \<open>ndigits\<close> places nearest to the
  exact value of \<open>x\<close>, ties going to the even last digit. (The result is then stored as
  the nearest double; that last step is not modelled.)\<close>

definition round_half_even :: "real \<Rightarrow> int" where
  "round_half_even x =
    (let f = \<lfloor>x\<rfloor>; d = x - of_int f
     in if d < 1 / 2 then f else if d > 1 / 2 then f + 1 else if even f then f else f + 1)"

definition py_round :: "real \<Rightarrow> nat \<Rightarrow> real" where
  "py_round x ndigits = of_int (round_half_even (x * 10 ^ ndigits)) / 10 ^ ndigits"

text \<open>A LangChain \<open>Document\<close>, and a FAISS store as the sequence of its entries. The
  embedding model, the similarity search and the storage are external services: each
  raises or answers.\<close>

record document =
  page_content :: string
  metadata :: "(string \<times> string) list"

type_synonym vector = "real list"

type_synonym faiss = "(vector \<times> document) list"

record backend =
  embed_text :: "string \<Rightarrow> exn + vector"
  similarity_search_with_score :: "faiss \<Rightarrow> string \<Rightarrow> int \<Rightarrow> exn + (document \<times> real) list"
  save_local :: "string \<Rightarrow> faiss \<Rightarrow> exn option"
  load_local :: "string \<Rightarrow> faiss \<Rightarrow> exn + faiss"

text \<open>The state of a \<open>SemanticRetrieval\<close> object (\<open>self.vectorstores\<close>), with the index
  directories on disk.\<close>

record retrieval =
  vectorstores :: "string \<rightharpoonup> faiss"
  saved :: "string \<rightharpoonup> faiss"

definition retrieval_init :: retrieval where
  "retrieval_init = \<lparr>vectorstores = Map.empty, saved = Map.empty\<rparr>"

text \<open>\<open>SemanticRetrieval._save_index\<close>: a failure is logged and ignored.\<close>

definition save_index :: "backend \<Rightarrow> retrieval \<Rightarrow> string \<Rightarrow> retrieval" where
  "save_index be st index_name =
    (case vectorstores st index_name of
       None \<Rightarrow> st
     | Some store \<Rightarrow>
        (let index_path = ''data/models/'' @ index_name in
         case save_local be index_path store of
           Some e \<Rightarrow> st
         | None \<Rightarrow> st\<lparr>saved := (saved st)(index_path \<mapsto> store)\<rparr>))"

text \<open>\<open>SemanticRetrieval.add_document\<close>: an exception of the embedding leaves the method
  before the registry is touched.\<close>

definition add_document :: "backend \<Rightarrow> retrieval \<Rightarrow> string \<Rightarrow> string \<Rightarrow> string \<Rightarrow> exn + retrieval" where
  "add_document be st index_name file_name text =
    (let doc = \<lparr>page_content = text, metadata = [(''filename'', file_name)]\<rparr> in
     case embed_text be text of
       Inl e \<Rightarrow> Inl e
     | Inr v \<Rightarrow>
        (let store = (case vectorstores st index_name of
                        None \<Rightarrow> [(v, doc)]
                      | Some old \<Rightarrow> old @ [(v, doc)])
         in Inr (save_index be (st\<lparr>vectorstores := (vectorstores st)(index_name \<mapsto> store)\<rparr>)
                   index_name)))"

text \<open>\<open>SemanticRetrieval.load_index\<close>.\<close>

definition load_index :: "backend \<Rightarrow> retrieval \<Rightarrow> string \<Rightarrow> bool \<times> retrieval" where
  "load_index be st index_name =
    (let index_path = ''data/models/'' @ index_name in
     case saved st index_path of
       None \<Rightarrow> (False, st)
     | Some on_disk \<Rightarrow>
        (case load_local be index_path on_disk of
           Inl e \<Rightarrow> (False, st)
         | Inr store \<Rightarrow> (True, st\<lparr>vectorstores := (vectorstores st)(index_name \<mapsto> store)\<rparr>)))"

text \<open>The entries of the list \<open>search\<close> returns, and the loop that formats them.\<close>

record hit =
  hit_rank :: int
  hit_filename :: string
  hit_score :: real
  hit_text_snippet :: string

definition format_result :: "nat \<times> document \<times> real \<Rightarrow> hit" where
  "format_result = (\<lambda>(i, doc, score).
    \<lparr>hit_rank = int i + 1,
     hit_filename = (case map_of (metadata doc) ''filename'' of
                       None \<Rightarrow> ''unknown'' | Some name \<Rightarrow> name),
     hit_score = py_round score 4,
     hit_text_snippet = (if length (page_content doc) > 300
                         then take 300 (page_content doc) @ ''...''
                         else page_content doc)\<rparr>)"

definition format_results :: "(document \<times> real) list \<Rightarrow> hit list" where
  "format_results results = map format_result (enumerate 0 results)"

text \<open>\<open>SemanticRetrieval.search\<close>.\<close>

definition search :: "backend \<Rightarrow> retrieval \<Rightarrow> string \<Rightarrow> string \<Rightarrow> int \<Rightarrow> hit list" where
  "search be st index_name query top_k =
    (case vectorstores st index_name of
       None \<Rightarrow> []
     | Some store \<Rightarrow>
        (case similarity_search_with_score be store query top_k of
           Inl e \<Rightarrow> []
         | Inr results \<Rightarrow> format_results results))"


section \<open>main.py: the search operation\<close>

text \<open>The pydantic models of schemas.py; the fields carry a prefix that keeps them apart
  from the parameters of the same names.\<close>

record search_request =
  req_index_name :: string
  req_query :: string
  req_top_k :: int

record search_result =
  res_rank :: int
  res_filename :: string
  res_similarity_score :: real
  res_text_snippet :: "string option"

record search_response =
  resp_query :: string
  resp_results :: "search_result list"
  resp_total_results :: int

definition to_search_result :: "hit \<Rightarrow> search_result" where
  "to_search_result r =
    \<lparr>res_rank = hit_rank r, res_filename = hit_filename r,
     res_similarity_score = hit_score r, res_text_snippet = Some (hit_text_snippet r)\<rparr>"

text \<open>\<open>search_documents\<close>, on a request that passed validation.\<close>

definition search_documents :: "backend \<Rightarrow> retrieval \<Rightarrow> search_request \<Rightarrow> exn + search_response" where
  "search_documents be st request =
    (let found = search be st (req_index_name request) (req_query request) (req_top_k request) in
     if found = [] then
       Inr \<lparr>resp_query = req_query request, resp_results = [], resp_total_results = 0\<rparr>
     else
       (let search_results = map to_search_result found in
        Inr \<lparr>resp_query = req_query request, resp_results = search_results,
             resp_total_results = int (length search_results)\<rparr>))"


section \<open>main.py: the upload operation\<close>

text \<open>
  The world the operation acts on: the folder of uploaded files, the cumulative results
  file, the indexes, and a log of the stages that ran. The PDF text extraction and the
  file system are external: the first raises or returns the text, the second may refuse
  to open a path for writing. The results file is absent, unreadable as JSON, or holds
  the records by file name.
\<close>

datatype results_file = Missing | Corrupt | Stored "(string \<times> fields) list"

datatype stage =
    SavedUpload string
  | ExtractedText string
  | Classified string "event list"
  | ExtractedFields string
  | AddedToIndex string string
  | WroteResults string

record world =
  input_files :: "string \<rightharpoonup> string"
  output_file :: results_file
  indexes :: retrieval
  stages :: "stage list"

record upload_env =
  env_classifier :: classifier
  env_backend :: backend
  env_extract_text :: "string \<Rightarrow> string \<Rightarrow> exn + string"
  env_open_error :: "string \<Rightarrow> exn option"

definition INPUT_FOLDER :: string where
  "INPUT_FOLDER = ''data/input''"

definition OUTPUT_FILE :: string where
  "OUTPUT_FILE = ''output.json''"

text \<open>\<open>str(e)\<close>: the message of an exception, kept only for the exceptions that are
  modelled with one.\<close>

definition str_of_exn :: "exn \<Rightarrow> string" where
  "str_of_exn e = (case e of OtherException msg \<Rightarrow> msg | HTTPException status detail \<Rightarrow> detail | _ \<Rightarrow> [])"

text \<open>\<open>{"filename": ..., "index_name": ..., "class": ..., **extracted_data}\<close>.\<close>

definition upload_result :: "string \<Rightarrow> string \<Rightarrow> string \<Rightarrow> fields \<Rightarrow> fields" where
  "upload_result file_name index_name doc_type extracted_data =
    foldl (\<lambda>d (k, v). AList.update k v d)
      [(''filename'', Str file_name), (''index_name'', Str index_name), (''class'', Str doc_type)]
      extracted_data"

text \<open>The last part of the \<open>try\<close> block: reading, updating and rewriting the results
  file.\<close>

definition save_result :: "upload_env \<Rightarrow> world \<Rightarrow> string \<Rightarrow> fields \<Rightarrow> (exn + fields) \<times> world" where
  "save_result env w file_name result =
    (case output_file w of
       Corrupt \<Rightarrow> (Inl (OtherException ''JSONDecodeError''), w)
     | known \<Rightarrow>
        (let all_results = (case known of Stored records \<Rightarrow> records | _ \<Rightarrow> []) in
         case env_open_error env OUTPUT_FILE of
           Some e \<Rightarrow> (Inl e, w)
         | None \<Rightarrow>
            (Inr result,
             w\<lparr>output_file := Stored (AList.update file_name result all_results),
               stages := stages w @ [WroteResults file_name]\<rparr>)))"

text \<open>The \<open>try\<close> block of \<open>upload_document\<close>, on a file name that is relative to the
  input folder.\<close>

definition upload_try :: "upload_env \<Rightarrow> world \<Rightarrow> string \<Rightarrow> string \<Rightarrow> string \<Rightarrow> (exn + fields) \<times> world" where
  "upload_try env w file_name content index_name =
    (if \<not> suffix ''.pdf'' file_name
     then (Inl (HTTPException 400 ''Only PDF files are supported''), w)
     else
      (let temp_path = INPUT_FOLDER @ ''/'' @ file_name in
       case env_open_error env temp_path of
         Some e \<Rightarrow> (Inl e, w)
       | None \<Rightarrow>
          (let w1 = w\<lparr>input_files := (input_files w)(temp_path \<mapsto> content),
                      stages := stages w @ [SavedUpload temp_path]\<rparr> in
           case env_extract_text env temp_path content of
             Inl e \<Rightarrow> (Inl e, w1)
           | Inr text \<Rightarrow>
              (let w2 = w1\<lparr>stages := stages w1 @ [ExtractedText temp_path]\<rparr> in
               if text = []
               then (Inl (HTTPException 400 ''Failed to extract text from PDF''), w2)
               else
                (let (doc_type, trace) = classify (env_classifier env) text file_name;
                     w3 = w2\<lparr>stages := stages w2 @ [Classified file_name trace]\<rparr> in
                 case extract_by_type text doc_type of
                   Inl e \<Rightarrow> (Inl e, w3)
                 | Inr extracted_data \<Rightarrow>
                    (let w4 = w3\<lparr>stages := stages w3 @ [ExtractedFields file_name]\<rparr> in
                     case add_document (env_backend env) (indexes w4) index_name file_name text of
                       Inl e \<Rightarrow> (Inl e, w4)
                     | Inr updated \<Rightarrow>
                        save_result env
                          (w4\<lparr>indexes := updated,
                              stages := stages w4 @ [AddedToIndex index_name file_name]\<rparr>)
                          file_name
                          (upload_result file_name index_name doc_type extracted_data)))))))"

text \<open>\<open>upload_document\<close>: an \<open>HTTPException\<close> goes through, any other exception becomes the
  status 500.\<close>

definition upload_document :: "upload_env \<Rightarrow> world \<Rightarrow> string \<Rightarrow> string \<Rightarrow> string \<Rightarrow> (exn + fields) \<times> world" where
  "upload_document env w file_name content index_name =
    (case upload_try env w file_name content index_name of
       (Inr result, w') \<Rightarrow> (Inr result, w')
     | (Inl (HTTPException status detail), w') \<Rightarrow> (Inl (HTTPException status detail), w')
     | (Inl e, w') \<Rightarrow> (Inl (HTTPException 500 (''Processing failed: '' @ str_of_exn e)), w'))"


section \<open>Notions of the specification\<close>




text \<open>The number of occurrences of a keyword: the positions at which it starts.\<close>

definition occurrences :: "string \<Rightarrow> string \<Rightarrow> nat" where
  "occurrences kw s = length (filter (prefix kw) (suffixes s))"


text \<open>Classifiers to run the model on: one that answers with a fixed label and score,
  one that always fails.\<close>

definition constant_classifier :: "string \<Rightarrow> real \<Rightarrow> classifier" where
  "constant_classifier label score =
    (\<lambda>text_sample candidate_labels template. Inr \<lparr>labels = [label], scores = [score]\<rparr>)"

definition failing_classifier :: classifier where
  "failing_classifier =
    (\<lambda>text_sample candidate_labels template. Inl (OtherException ''TimeoutError''))"

text \<open>What a trace says was sent to the classifier and to the rule engine.\<close>

fun classifier_inputs :: "event list \<Rightarrow> string list" where
  "classifier_inputs [] = []"
| "classifier_inputs (ClassifierCall s # es) = s # classifier_inputs es"
| "classifier_inputs (RuleEngineCall t l c # es) = classifier_inputs es"

fun rule_engine_inputs :: "event list \<Rightarrow> string list" where
  "rule_engine_inputs [] = []"
| "rule_engine_inputs (ClassifierCall s # es) = rule_engine_inputs es"
| "rule_engine_inputs (RuleEngineCall t l c # es) = t # rule_engine_inputs es"



text \<open>The registry after a history of \<open>add\<close> calls (collection, file name, text), each of
  which either raises and changes nothing or succeeds.\<close>

fun after_adds :: "backend \<Rightarrow> retrieval \<Rightarrow> (string \<times> string \<times> string) list \<Rightarrow> retrieval" where
  "after_adds be st [] = st"
| "after_adds be st ((index_name, file_name, text) # calls) =
    (case add_document be st index_name file_name text of
       Inl e \<Rightarrow> after_adds be st calls
     | Inr st' \<Rightarrow> after_adds be st' calls)"

text \<open>A backend to run the model on: the embedding is constant, the search answers with
  the first \<open>k\<close> documents at the distances \<open>1/32\<close>, \<open>3/32\<close>, and so on, and the storage
  works.\<close>

definition demo_backend :: backend where
  "demo_backend =
    \<lparr>embed_text = (\<lambda>text. Inr [1]),
     similarity_search_with_score =
       (\<lambda>store query k. Inr (map (\<lambda>(i, v, doc). (doc, (2 * real i + 1) / 32))
                                (enumerate 0 (take (nat k) store)))),
     save_local = (\<lambda>path store. None),
     load_local = (\<lambda>path store. Inr store)\<rparr>"

definition demo_calls :: "(string \<times> string \<times> string) list" where
  "demo_calls =
    [(''docs'', ''long.pdf'', replicate 301 (CHR ''a'')),
     (''docs'', ''short.pdf'', ''invoice'')]"


text \<open>What a date shape yields on a text: nothing when the shape does not occur in it,
  and otherwise what the normalization of its first occurrence gives.\<close>

definition shape_result :: "string \<Rightarrow> regex \<Rightarrow> string option" where
  "shape_result text pattern =
    (case re_search (ignorecase pattern) text of
       None \<Rightarrow> None
     | Some m \<Rightarrow> (case normalize_date (group0 m) of Inr (Some d) \<Rightarrow> Some d | _ \<Rightarrow> None))"

definition first_parsed :: "string option list \<Rightarrow> string option" where
  "first_parsed rs = (case find (\<lambda>r. r \<noteq> None) rs of None \<Rightarrow> None | Some r \<Rightarrow> r)"

text \<open>The canonical form: four digits, a dash, two digits, a dash, two digits.\<close>

definition canonical_date :: "string \<Rightarrow> bool" where
  "canonical_date s =
    (length s = 10 \<and> s ! 4 = CHR ''-'' \<and> s ! 7 = CHR ''-''
     \<and> list_all is_digit (take 4 s @ take 2 (drop 5 s) @ drop 8 s))"


text \<open>A text in which the first shape occurs but is no date, and a later shape is one.\<close>

definition two_shapes_text :: string where
  "two_shapes_text = ''2024-13-45 due 01/15/2024''"


text \<open>A pattern in which the group of a given name takes part in every match: the group
  stands on the way through the pattern, not under an option and, of alternatives, in each.\<close>

fun captures :: "string \<Rightarrow> regex \<Rightarrow> bool" where
  "captures n Eps = False"
| "captures n (Chr p) = False"
| "captures n (Seq r1 r2) = (captures n r1 \<or> captures n r2)"
| "captures n (Alt r1 r2) = (captures n r1 \<and> captures n r2)"
| "captures n (Opt r) = False"
| "captures n (Rep p lo hi) = False"
| "captures n (Group name r) = (name = n \<or> captures n r)"
| "captures n WordB = False"


text \<open>A world and an environment to run the upload operation in.\<close>

definition world_init :: world where
  "world_init =
    \<lparr>input_files = Map.empty, output_file = Missing, indexes = retrieval_init, stages = []\<rparr>"

definition demo_env :: upload_env where
  "demo_env =
    \<lparr>env_classifier = constant_classifier ''Other'' (9 / 10),
     env_backend = demo_backend,
     env_extract_text = (\<lambda>path content. Inr content),
     env_open_error = (\<lambda>path. None)\<rparr>"


section \<open>The rule engine\<close>


lemma sublist_iff_occurs: "sublist kw s \<longleftrightarrow> 0 < occurrences kw s"
proof -
  have "0 < occurrences kw s \<longleftrightarrow> (\<exists>t \<in> set (suffixes s). prefix kw t)"
    by (simp add: occurrences_def filter_empty_conv)
  also have "\<dots> \<longleftrightarrow> sublist kw s"
    by (auto simp: sublist_altdef')
  finally show ?thesis by simp
qed

text \<open>
  C1, as the specification states it: a keyword that occurs k times adds k to the count
  of its category. The code tests each keyword for presence, so the statement fails: in
  \<open>tax tax tax\<close> the keyword occurs three times, the invoice count is 1, and a label
  Other is not overridden.
\<close>

theorem keyword_repetition_counterexample:
  "occurrences ''tax'' (lower ''tax tax tax'') = 3
   \<and> invoice_count ''tax tax tax'' = 1
   \<and> apply_rules ''tax tax tax'' ''Other'' (9 / 10) = ''Other''"
  by code_simp

text \<open>
  C1, amended: each keyword of a category's list adds 1 to the count when it occurs at
  least once in the lowercased text, however often, and 0 when it does not occur; the
  count is the number of listed keywords that are present.
\<close>

theorem keyword_count_presence:
  "keyword_count kws s = (\<Sum>kw\<leftarrow>kws. if 1 \<le> occurrences kw s then 1 else 0)"
  unfolding keyword_count_def
  by (induction kws) (simp_all add: sublist_iff_occurs Suc_le_eq)



section \<open>The classification orchestrator\<close>

text \<open>The literal \<open>0.3\<close> lies below three tenths by a fifth of \<open>2\<^sup>-\<^sup>5\<^sup>4\<close>: no double
  lies between the two, so that for a score which is a double, below the literal and
  below 0.30 differ at the literal itself only.\<close>

lemma float_0_3_gap: "3 / 10 - float_0_3 = 1 / (5 * 2 ^ 54)"
  by (simp add: float_0_3_def)









text \<open>
  C6. When the external classifier raises (whatever the exception), classify returns
  Unclassifiable, the classifier has been called at most once (no retry) and the rule
  engine has not been applied; when the top-ranked score is below the literal 0.3,
  classify returns Unclassifiable as well.
\<close>

theorem classify_unclassifiable:
  "(clf (take 2000 text) DOCUMENT_TYPES hypothesis_template = Inl e \<longrightarrow>
      fst (classify clf text filename) = ''Unclassifiable''
      \<and> rule_engine_inputs (snd (classify clf text filename)) = []
      \<and> length (classifier_inputs (snd (classify clf text filename))) \<le> 1)
   \<and> (clf (take 2000 text) DOCUMENT_TYPES hypothesis_template = Inr r
        \<and> scores r = c # cs \<and> c < float_0_3 \<longrightarrow>
      fst (classify clf text filename) = ''Unclassifiable''
      \<and> rule_engine_inputs (snd (classify clf text filename)) = [])"
  by (auto simp: classify_def classify_try_def Let_def split: list.splits)

theorem classify_unclassifiable_witness:
  "fst (classify failing_classifier ''Invoice 42: total amount due'' ''a.pdf'') = ''Unclassifiable''
   \<and> rule_engine_inputs (snd (classify failing_classifier ''Invoice 42: total amount due'' ''a.pdf'')) = []
   \<and> fst (classify (constant_classifier ''Invoice'' (29 / 100)) ''Invoice 42: total amount due'' ''a.pdf'')
       = ''Unclassifiable''"
proof -
  have fails: "failing_classifier (take 2000 ''Invoice 42: total amount due'') DOCUMENT_TYPES
      hypothesis_template = Inl (OtherException ''TimeoutError'')"
    by (simp add: failing_classifier_def)
  have low: "constant_classifier ''Invoice'' (29 / 100) (take 2000 ''Invoice 42: total amount due'')
      DOCUMENT_TYPES hypothesis_template = Inr \<lparr>labels = [''Invoice''], scores = [29 / 100]\<rparr>
    \<and> scores \<lparr>labels = [''Invoice''], scores = [29 / 100]\<rparr> = [29 / 100]
    \<and> (29 / 100 :: real) < float_0_3"
    by (simp add: constant_classifier_def float_0_3_def)
  from fails low
    classify_unclassifiable [of failing_classifier "''Invoice 42: total amount due''"
      "OtherException ''TimeoutError''" "''a.pdf''"]
    classify_unclassifiable [of "constant_classifier ''Invoice'' (29 / 100)"
      "''Invoice 42: total amount due''" _ "''a.pdf''"
      "\<lparr>labels = [''Invoice''], scores = [29 / 100]\<rparr>" "29 / 100" "[]"]
  show ?thesis by blast
qed












section \<open>The index manager and the search operation\<close>

lemma after_adds_untouched:
  "index_name \<notin> fst ` set calls \<Longrightarrow>
     vectorstores (after_adds be st calls) index_name = vectorstores st index_name"
proof (induction calls arbitrary: st)
  case Nil
  then show ?case by simp
next
  case (Cons call calls)
  obtain i f t where call: "call = (i, f, t)" by (cases call)
  with Cons.prems have ne: "i \<noteq> index_name" and rest: "index_name \<notin> fst ` set calls"
    by auto
  have step: "add_document be st i f t = Inr st' \<Longrightarrow>
      vectorstores st' index_name = vectorstores st index_name" for st'
    using ne by (auto simp: add_document_def save_index_def Let_def split: sum.splits option.splits)
  show ?case
    using Cons.IH [OF rest] step by (simp add: call split: sum.splits)
qed

text \<open>
  C7. For a collection id that has no index in memory, search returns the empty sequence
  and the search operation answers with no results and \<open>total_results = 0\<close>, not with an
  error; a collection id that no add call has named has no index in memory.
\<close>

theorem search_unknown_collection:
  "(vectorstores st index_name = None \<longrightarrow>
       search be st index_name query top_k = []
     \<and> search_documents be st
          \<lparr>req_index_name = index_name, req_query = query, req_top_k = top_k\<rparr>
         = Inr \<lparr>resp_query = query, resp_results = [], resp_total_results = 0\<rparr>)
   \<and> (index_name \<notin> fst ` set calls \<longrightarrow>
       vectorstores (after_adds be retrieval_init calls) index_name = None)"
  by (simp add: search_def search_documents_def after_adds_untouched retrieval_init_def)

theorem search_unknown_collection_witness:
  "''other'' \<notin> fst ` set demo_calls
   \<and> search demo_backend (after_adds demo_backend retrieval_init demo_calls) ''other'' ''q'' 5 = []
   \<and> search_documents demo_backend (after_adds demo_backend retrieval_init demo_calls)
        \<lparr>req_index_name = ''other'', req_query = ''q'', req_top_k = 5\<rparr>
       = Inr \<lparr>resp_query = ''q'', resp_results = [], resp_total_results = 0\<rparr>"
proof -
  have h: "''other'' \<notin> fst ` set demo_calls"
    by (simp add: demo_calls_def)
  from h search_unknown_collection
    [where st = "after_adds demo_backend retrieval_init demo_calls" and be = demo_backend
       and calls = demo_calls and index_name = "''other''" and query = "''q''" and top_k = 5]
  show ?thesis by simp
qed

lemma rhe_bounds: "\<bar>of_int (round_half_even x) - x\<bar> \<le> 1 / 2"
  unfolding round_half_even_def Let_def
  by (auto simp: abs_if not_less; linarith)

lemma py_round_close: "\<bar>py_round x 4 - x\<bar> \<le> 1 / 20000"
proof -
  have "\<bar>of_int (round_half_even (x * 10 ^ 4)) - x * 10 ^ 4\<bar> \<le> 1 / 2"
    by (rule rhe_bounds)
  then have "\<bar>(of_int (round_half_even (x * 10 ^ 4)) - x * 10 ^ 4) / 10 ^ 4\<bar> \<le> (1 / 2) / 10 ^ 4"
    by (simp add: abs_divide)
  then show ?thesis
    by (simp add: py_round_def diff_divide_distrib)
qed


lemma rhe_int: "\<exists>z::int. py_round x 4 = of_int z / 10000"
  by (auto simp: py_round_def)

lemma search_cases:
  "search be st index_name query top_k = []
   \<or> (\<exists>store found. vectorstores st index_name = Some store
        \<and> similarity_search_with_score be store query top_k = Inr found
        \<and> search be st index_name query top_k = format_results found)"
  by (auto simp: search_def split: option.splits sum.splits)

lemma length_format_results: "length (format_results found) = length found"
  by (simp add: format_results_def)

lemma nth_format_results:
  "i < length found \<Longrightarrow> format_results found ! i = format_result (i, found ! i)"
  by (simp add: format_results_def nth_enumerate_eq)

lemma demo_store: "vectorstores (after_adds demo_backend retrieval_init demo_calls) ''docs'' =
  Some [([1], \<lparr>page_content = replicate 301 (CHR ''a''), metadata = [(''filename'', ''long.pdf'')]\<rparr>),
        ([1], \<lparr>page_content = ''invoice'', metadata = [(''filename'', ''short.pdf'')]\<rparr>)]"
  by (simp add: demo_calls_def demo_backend_def retrieval_init_def add_document_def save_index_def Let_def)

lemma demo_search: "search demo_backend (after_adds demo_backend retrieval_init demo_calls) ''docs'' ''q'' 1
   = [\<lparr>hit_rank = 1, hit_filename = ''long.pdf'', hit_score = 39 / 1250,
       hit_text_snippet = replicate 300 (CHR ''a'') @ ''...''\<rparr>]"
  unfolding search_def demo_store
  by (simp add: demo_backend_def format_results_def format_result_def enumerate_eq_zip
       py_round_def round_half_even_def)

text \<open>
  C8. The i-th result of search (counting from 0) has rank i + 1; its score is the
  similarity score of the i-th answer of the store rounded to 4 decimal places (a
  multiple of 0.0001 at most 0.00005 away); its snippet is the full text of that answer's
  document when the text has at most 300 characters and the first 300 characters followed
  by three dots otherwise, so at most 303 characters.
\<close>

theorem search_result_shape:
  "i < length (search be st index_name query top_k) \<Longrightarrow>
     \<exists>store found doc raw.
        vectorstores st index_name = Some store
      \<and> similarity_search_with_score be store query top_k = Inr found
      \<and> length (search be st index_name query top_k) = length found
      \<and> found ! i = (doc, raw)
      \<and> hit_rank (search be st index_name query top_k ! i) = int i + 1
      \<and> hit_score (search be st index_name query top_k ! i) = py_round raw 4
      \<and> (\<exists>z::int. hit_score (search be st index_name query top_k ! i) = of_int z / 10000)
      \<and> \<bar>hit_score (search be st index_name query top_k ! i) - raw\<bar> \<le> 1 / 20000
      \<and> hit_text_snippet (search be st index_name query top_k ! i) =
          (if length (page_content doc) \<le> 300 then page_content doc
           else take 300 (page_content doc) @ ''...'')
      \<and> length (hit_text_snippet (search be st index_name query top_k ! i)) \<le> 303"
proof -
  assume i: "i < length (search be st index_name query top_k)"
  with search_cases [of be st index_name query top_k]
  obtain store found where store: "vectorstores st index_name = Some store"
    and found: "similarity_search_with_score be store query top_k = Inr found"
    and eq: "search be st index_name query top_k = format_results found"
    by auto
  from i eq have i': "i < length found"
    by (simp add: length_format_results)
  obtain doc raw where at: "found ! i = (doc, raw)"
    by (cases "found ! i")
  have h: "search be st index_name query top_k ! i = format_result (i, doc, raw)"
    using eq i' at by (simp add: nth_format_results)
  have len: "length (search be st index_name query top_k) = length found"
    by (simp add: eq length_format_results)
  have "hit_rank (search be st index_name query top_k ! i) = int i + 1"
    and "hit_score (search be st index_name query top_k ! i) = py_round raw 4"
    and "\<exists>z::int. hit_score (search be st index_name query top_k ! i) = of_int z / 10000"
    and "\<bar>hit_score (search be st index_name query top_k ! i) - raw\<bar> \<le> 1 / 20000"
    and "hit_text_snippet (search be st index_name query top_k ! i) =
          (if length (page_content doc) \<le> 300 then page_content doc
           else take 300 (page_content doc) @ ''...'')"
    and "length (hit_text_snippet (search be st index_name query top_k ! i)) \<le> 303"
    using rhe_int [of raw] py_round_close [of raw]
    by (simp_all add: h format_result_def)
  with store found len at show ?thesis
    by blast
qed

theorem search_result_shape_witness:
  "0 < length (search demo_backend (after_adds demo_backend retrieval_init demo_calls) ''docs'' ''q'' 1)
   \<and> hit_rank (search demo_backend (after_adds demo_backend retrieval_init demo_calls)
         ''docs'' ''q'' 1 ! 0) = 1
   \<and> hit_score (search demo_backend (after_adds demo_backend retrieval_init demo_calls)
         ''docs'' ''q'' 1 ! 0) = 39 / 1250
   \<and> length (hit_text_snippet (search demo_backend
         (after_adds demo_backend retrieval_init demo_calls) ''docs'' ''q'' 1 ! 0)) = 303"
proof -
  have h: "0 < length (search demo_backend (after_adds demo_backend retrieval_init demo_calls)
      ''docs'' ''q'' 1)"
    by (simp add: demo_search)
  from search_result_shape [OF h]
  have "hit_rank (search demo_backend (after_adds demo_backend retrieval_init demo_calls)
         ''docs'' ''q'' 1 ! 0) = int 0 + 1"
    by blast
  with h show ?thesis
    by (simp add: demo_search)
qed


section \<open>Date extraction\<close>

lemma strptime_raises: "strptime s fmt = Inl e \<Longrightarrow> e = ValueError"
  by (auto simp: strptime_def split: option.splits if_splits)

lemma strptime_valid: "strptime s fmt = Inr (y, m, d) \<Longrightarrow> valid_date y m d"
  by (auto simp: strptime_def split: option.splits if_splits)

lemma try_formats_cases:
  "try_formats s fmts = Inr None
   \<or> (\<exists>y m d. valid_date y m d \<and> try_formats s fmts = Inr (Some (strftime_ymd (y, m, d))))"
proof (induction fmts)
  case Nil
  then show ?case by simp
next
  case (Cons fmt fmts)
  show ?case
  proof (cases "strptime s fmt")
    case (Inl e)
    then have "e = ValueError" by (rule strptime_raises)
    with Inl Cons.IH show ?thesis by simp
  next
    case (Inr dt)
    obtain y m d where "dt = (y, m, d)" by (cases dt)
    with Inr strptime_valid [of s fmt y m d] show ?thesis by auto
  qed
qed

lemma is_digit_digit_char: "is_digit (digit_char n)"
proof -
  have "n mod 10 = 0 \<or> n mod 10 = 1 \<or> n mod 10 = 2 \<or> n mod 10 = 3 \<or> n mod 10 = 4
      \<or> n mod 10 = 5 \<or> n mod 10 = 6 \<or> n mod 10 = 7 \<or> n mod 10 = 8 \<or> n mod 10 = 9"
    by presburger
  then show ?thesis
    by (auto simp: digit_char_def is_digit_def code_def)
qed

lemma digit_char_zero: "digit_char n = CHR ''0'' \<longleftrightarrow> n mod 10 = 0"
proof -
  have "n mod 10 = 0 \<or> n mod 10 = 1 \<or> n mod 10 = 2 \<or> n mod 10 = 3 \<or> n mod 10 = 4
      \<or> n mod 10 = 5 \<or> n mod 10 = 6 \<or> n mod 10 = 7 \<or> n mod 10 = 8 \<or> n mod 10 = 9"
    by presburger
  then show ?thesis
    by (auto simp: digit_char_def)
qed

lemma year_digits_four:
  assumes "1000 \<le> y" "y \<le> 9999"
  shows "year_digits y =
    [digit_char (y div 1000), digit_char (y div 100), digit_char (y div 10), digit_char y]"
proof -
  from assms have "1 \<le> y div 1000" "y div 1000 < 10" by auto
  then have "(y div 1000) mod 10 \<noteq> 0" by simp
  then show ?thesis
    by (simp add: year_digits_def digit_char_zero)
qed

lemma strftime_nonempty: "strftime_ymd (y, m, d) \<noteq> []"
  by (simp add: strftime_ymd_def)

lemma strftime_canonical:
  "valid_date y m d \<Longrightarrow> 1000 \<le> y \<Longrightarrow> canonical_date (strftime_ymd (y, m, d))"
  by (simp add: strftime_ymd_def canonical_date_def valid_date_def year_digits_four
      is_digit_digit_char)

lemma shape_result_cases:
  "(re_search (ignorecase pattern) text = None \<and> shape_result text pattern = None)
   \<or> (\<exists>m. re_search (ignorecase pattern) text = Some m
        \<and> normalize_date (group0 m) = Inr (shape_result text pattern))"
  using try_formats_cases [of "group0 (the (re_search (ignorecase pattern) text))" date_formats]
  by (auto simp: shape_result_def normalize_date_def split: option.splits)

lemma shape_result_form:
  "shape_result text pattern = Some d \<Longrightarrow>
     \<exists>y m dd. valid_date y m dd \<and> d = strftime_ymd (y, m, dd)"
  using try_formats_cases [of "group0 (the (re_search (ignorecase pattern) text))" date_formats]
  by (fastforce simp: shape_result_def normalize_date_def split: option.splits)

lemma find_Some_mem: "find P xs = Some x \<Longrightarrow> x \<in> set xs"
  by (induction xs) (auto split: if_splits)

lemma extract_date_loop_first:
  "extract_date_loop patterns text = Inr (first_parsed (map (shape_result text) patterns))"
proof (induction patterns)
  case Nil
  then show ?case by (simp add: first_parsed_def)
next
  case (Cons pattern patterns)
  from shape_result_cases [of pattern "text"] show ?case
  proof (elim disjE conjE exE)
    assume "re_search (ignorecase pattern) text = None" "shape_result text pattern = None"
    with Cons.IH show ?thesis by (simp add: first_parsed_def)
  next
    fix m
    assume m: "re_search (ignorecase pattern) text = Some m"
      and n: "normalize_date (group0 m) = Inr (shape_result text pattern)"
    show ?thesis
    proof (cases "shape_result text pattern")
      case None
      with m n Cons.IH show ?thesis by (simp add: first_parsed_def)
    next
      case (Some d)
      with shape_result_form [of "text" pattern d] strftime_nonempty have "d \<noteq> []" by auto
      with Some m n show ?thesis by (simp add: first_parsed_def)
    qed
  qed
qed

lemmas class_defs = is_digit_def is_space_def is_upper_def is_lower_def is_alpha_def code_def
  lower_char_def upper_char_def any_case_def in_range_def one_of_def is_word_def char_of_def
lemmas re_defs = match_at_def re_search_def exactly_def many1_def many_def

lemma two_shapes_iso:
  "re_search (ignorecase iso_date_pattern) two_shapes_text =
     Some \<lparr>group0 = ''2024-13-45'', groups = [], after_match = '' due 01/15/2024''\<rparr>"
  by (simp add: two_shapes_text_def iso_date_pattern_def re_defs class_defs)

lemma two_shapes_slash:
  "re_search (ignorecase slash_date_pattern) two_shapes_text =
     Some \<lparr>group0 = ''01/15/2024'', groups = [], after_match = []\<rparr>"
  by (simp add: two_shapes_text_def slash_date_pattern_def re_defs class_defs)

lemma two_shapes_dash:
  "re_search (ignorecase dash_date_pattern) two_shapes_text = None"
  by (simp add: two_shapes_text_def dash_date_pattern_def re_defs class_defs)

lemma two_shapes_month:
  "re_search (ignorecase month_date_pattern) two_shapes_text = None"
  by (simp add: two_shapes_text_def month_date_pattern_def month_prefix_def re_defs class_defs)

lemmas strptime_defs = normalize_date_def date_formats_def strptime_def directive_def
  month_abbrs_def month_names_def parsed_year_def parsed_month_def parsed_day_def group_def
  valid_date_def days_in_month_def is_leap_def int_of_digits_def digit_value_def
  strftime_ymd_def digit_char_def lstrip_def year_digits_def

lemma no_date_2024_13_45: "normalize_date ''2024-13-45'' = Inr None"
  by (simp add: strptime_defs re_defs class_defs)

lemma date_01_15_2024: "normalize_date ''01/15/2024'' = Inr (Some ''2024-01-15'')"
  by (simp add: strptime_defs re_defs class_defs)

text \<open>A year below 1000 is read with its four digits and written without the leading
  zero, as glibc does.\<close>

lemma year_999_unpadded: "normalize_date ''0999-01-05'' = Inr (Some ''999-01-05'')"
  by (simp add: strptime_defs re_defs class_defs)

text \<open>
  C4, as the specification states it: only the first shape that occurs in the text is
  parsed, and when its occurrence parses under no format the date is omitted. The loop
  over the shapes goes on after an occurrence that does not parse: in
  \<open>2024-13-45 due 01/15/2024\<close> the first shape occurs as \<open>2024-13-45\<close>, which no format
  parses, and the date comes from the second shape.
\<close>

theorem later_shape_counterexample:
  "re_search (ignorecase iso_date_pattern) two_shapes_text =
     Some \<lparr>group0 = ''2024-13-45'', groups = [], after_match = '' due 01/15/2024''\<rparr>
   \<and> normalize_date ''2024-13-45'' = Inr None
   \<and> extract_date two_shapes_text = Inr (Some ''2024-01-15'')"
  by (simp add: extract_date_def date_patterns_def two_shapes_iso two_shapes_slash
      no_date_2024_13_45 date_01_15_2024)

lemma two_shapes_results:
  "map (shape_result two_shapes_text) date_patterns = [None, Some ''2024-01-15'', None, None]"
  by (simp add: date_patterns_def shape_result_def two_shapes_iso two_shapes_slash
      two_shapes_dash two_shapes_month no_date_2024_13_45 date_01_15_2024)

text \<open>
  C4, amended: the date shapes are tried in their fixed order; the first occurrence of a
  shape is parsed against the fixed list of formats, and a shape whose occurrence parses
  under no format is passed over for the next shape. The date is that of the first shape
  whose occurrence parses, and the field is omitted only when no shape has one. A date
  that is returned is a calendar date written year-month-day, in the form YYYY-MM-DD for
  every year from 1000 on.
\<close>

theorem extract_date_first_parsed:
  "extract_date text = Inr (first_parsed (map (shape_result text) date_patterns))
   \<and> (\<forall>d. extract_date text = Inr (Some d) \<longrightarrow>
        (\<exists>y m dd. valid_date y m dd \<and> d = strftime_ymd (y, m, dd)
           \<and> (1000 \<le> y \<longrightarrow> canonical_date d)))"
proof (intro conjI allI impI)
  show first: "extract_date text = Inr (first_parsed (map (shape_result text) date_patterns))"
    by (simp add: extract_date_def extract_date_loop_first)
  fix d
  assume "extract_date text = Inr (Some d)"
  with first have "first_parsed (map (shape_result text) date_patterns) = Some d" by simp
  then have "Some d \<in> set (map (shape_result text) date_patterns)"
    by (auto simp: first_parsed_def split: option.splits dest: find_Some_mem)
  then obtain pattern where "shape_result text pattern = Some d" by auto
  from shape_result_form [OF this] obtain y m dd
    where "valid_date y m dd" "d = strftime_ymd (y, m, dd)" by blast
  with strftime_canonical [of y m dd]
  show "\<exists>y m dd. valid_date y m dd \<and> d = strftime_ymd (y, m, dd)
           \<and> (1000 \<le> y \<longrightarrow> canonical_date d)"
    by blast
qed

theorem extract_date_first_parsed_witness:
  "map (shape_result two_shapes_text) date_patterns = [None, Some ''2024-01-15'', None, None]
   \<and> extract_date two_shapes_text = Inr (Some ''2024-01-15'')
   \<and> (\<exists>y m dd. valid_date y m dd \<and> ''2024-01-15'' = strftime_ymd (y, m, dd)
          \<and> (1000 \<le> y \<longrightarrow> canonical_date ''2024-01-15''))"
proof -
  note inst = extract_date_first_parsed [of two_shapes_text]
  from inst have found: "extract_date two_shapes_text = Inr (Some ''2024-01-15'')"
    by (simp add: two_shapes_results first_parsed_def)
  with inst have "\<exists>y m dd. valid_date y m dd \<and> ''2024-01-15'' = strftime_ymd (y, m, dd)
          \<and> (1000 \<le> y \<longrightarrow> canonical_date ''2024-01-15'')"
    by blast
  with found two_shapes_results show ?thesis by blast
qed


section \<open>The extraction cascade\<close>

lemma greedy_groups:
  "(p', s', g') \<in> set (greedy q lo hi k (p, s, g)) \<Longrightarrow> g' = g"
  by (induction s arbitrary: k p) (auto split: if_splits)

lemma rmatch_keeps:
  "(p', s', g') \<in> set (rmatch r (p, s, g)) \<Longrightarrow> n \<in> fst ` set g \<Longrightarrow> n \<in> fst ` set g'"
proof (induction r arbitrary: p s g p' s' g')
  case (Chr q)
  then show ?case by (cases s) (auto split: if_splits)
next
  case (Seq r1 r2)
  from Seq.prems(1) obtain st where st: "st \<in> set (rmatch r1 (p, s, g))"
    and fin: "(p', s', g') \<in> set (rmatch r2 st)"
    by auto
  obtain p1 s1 g1 where st_eq: "st = (p1, s1, g1)" by (cases st)
  from Seq.IH(1) [OF st [unfolded st_eq] Seq.prems(2)] have "n \<in> fst ` set g1" .
  from Seq.IH(2) [OF fin [unfolded st_eq] this] show ?case .
next
  case (Alt r1 r2)
  from Alt.prems(1) have "(p', s', g') \<in> set (rmatch r1 (p, s, g))
      \<or> (p', s', g') \<in> set (rmatch r2 (p, s, g))"
    by simp
  with Alt.IH Alt.prems(2) show ?case by blast
next
  case (Opt r)
  from Opt.prems(1) have "(p', s', g') \<in> set (rmatch r (p, s, g)) \<or> (p', s', g') = (p, s, g)"
    by auto
  with Opt.IH Opt.prems(2) show ?case by blast
next
  case (Rep q lo hi)
  then show ?case by (auto dest: greedy_groups)
next
  case (Group name r)
  from Group.prems(1) obtain g0 where "(p', s', g0) \<in> set (rmatch r (p, s, g))"
    and g': "g' = (name, take (length s - length s') s) # g0"
    by auto
  from Group.IH [OF this(1) Group.prems(2)] g' show ?case by simp
qed (auto split: if_splits)

lemma rmatch_captures:
  "captures n r \<Longrightarrow> (p', s', g') \<in> set (rmatch r (p, s, g)) \<Longrightarrow> n \<in> fst ` set g'"
proof (induction r arbitrary: p s g p' s' g')
  case (Seq r1 r2)
  from Seq.prems(2) obtain st where st: "st \<in> set (rmatch r1 (p, s, g))"
    and fin: "(p', s', g') \<in> set (rmatch r2 st)"
    by auto
  obtain p1 s1 g1 where st_eq: "st = (p1, s1, g1)" by (cases st)
  from Seq.prems(1) consider "captures n r1" | "captures n r2" by auto
  then show ?case
  proof cases
    case 1
    from Seq.IH(1) [OF 1 st [unfolded st_eq]] have "n \<in> fst ` set g1" .
    from rmatch_keeps [OF fin [unfolded st_eq] this] show ?thesis .
  next
    case 2
    from Seq.IH(2) [OF 2 fin [unfolded st_eq]] show ?thesis .
  qed
next
  case (Alt r1 r2)
  from Alt.prems(2) have "(p', s', g') \<in> set (rmatch r1 (p, s, g))
      \<or> (p', s', g') \<in> set (rmatch r2 (p, s, g))"
    by simp
  with Alt.IH Alt.prems(1) show ?case by auto
next
  case (Group name r)
  from Group.prems(2) obtain g0 where in0: "(p', s', g0) \<in> set (rmatch r (p, s, g))"
    and g': "g' = (name, take (length s - length s') s) # g0"
    by auto
  show ?case
  proof (cases "name = n")
    case True
    with g' show ?thesis by simp
  next
    case False
    with Group.prems(1) have "captures n r" by simp
    from Group.IH [OF this in0] g' show ?thesis by simp
  qed
qed auto

lemma captures_ignorecase: "captures n (ignorecase r) = captures n r"
  by (induction r) auto

lemma match_at_group:
  "captures n r \<Longrightarrow> match_at r prev s = Some m \<Longrightarrow> \<exists>v. group m n = Some v"
proof -
  assume c: "captures n r" and m: "match_at r prev s = Some m"
  from m obtain p' s' g others where first: "rmatch r (prev, s, []) = (p', s', g) # others"
    and g: "groups m = g"
    by (auto simp: match_at_def split: list.splits)
  from first have "(p', s', g) \<in> set (rmatch r (prev, s, []))" by simp
  from rmatch_captures [OF c this] g have "n \<in> fst ` set (groups m)" by simp
  then show ?thesis
    by (cases "map_of (groups m) n") (auto simp: group_def map_of_eq_None_iff)
qed

lemma search_from_group:
  "captures n r \<Longrightarrow> search_from r prev s = Some m \<Longrightarrow> \<exists>v. group m n = Some v"
  by (induction s arbitrary: prev) (auto split: option.splits dest: match_at_group)

lemma re_search_group:
  "captures n r \<Longrightarrow> re_search (ignorecase r) s = Some m \<Longrightarrow> \<exists>v. group m n = Some v"
  unfolding re_search_def
  by (rule search_from_group [of n "ignorecase r"]) (simp_all add: captures_ignorecase)

lemma re_search_group_plain:
  "captures n r \<Longrightarrow> re_search r s = Some m \<Longrightarrow> \<exists>v. group m n = Some v"
  unfolding re_search_def by (rule search_from_group)

lemma py_float_raises: "py_float s = Inl e \<Longrightarrow> e = ValueError"
  by (auto simp: py_float_def Let_def split: list.splits if_splits)

lemma py_int_raises: "py_int s = Inl e \<Longrightarrow> e = ValueError"
  by (auto simp: py_int_def split: if_splits)

lemma with_patterns_loop_total:
  "\<forall>p \<in> set ps. captures ''1'' p \<Longrightarrow> \<exists>r. with_patterns_loop low ps = Inr r"
proof (induction ps)
  case Nil
  then show ?case by simp
next
  case (Cons p ps)
  show ?case
  proof (cases "re_search (ignorecase p) low")
    case None
    with Cons show ?thesis by simp
  next
    case (Some m)
    from Cons.prems have "captures ''1'' p" by simp
    from re_search_group [OF this Some] obtain v where "group m ''1'' = Some v" ..
    with Some show ?thesis by (simp add: group1_def)
  qed
qed

lemma amount_loop_total:
  "\<forall>p \<in> set ps. captures ''1'' p \<Longrightarrow> \<exists>r. amount_loop low ps = Inr r"
proof (induction ps)
  case Nil
  then show ?case by simp
next
  case (Cons p ps)
  show ?case
  proof (cases "re_search (ignorecase p) low")
    case None
    with Cons show ?thesis by simp
  next
    case (Some m)
    from Cons.prems have "captures ''1'' p" by simp
    from re_search_group [OF this Some] obtain v where v: "group m ''1'' = Some v" ..
    show ?thesis
    proof (cases "py_float (filter (\<lambda>c. c \<noteq> CHR '','') v)")
      case (Inl e)
      then have "e = ValueError" by (rule py_float_raises)
      with Inl Some v Cons show ?thesis by (simp add: group1_def)
    next
      case (Inr amount)
      with Some v show ?thesis by (simp add: group1_def)
    qed
  qed
qed

lemma experience_loop_total:
  "\<forall>p \<in> set ps. captures ''1'' p \<Longrightarrow> \<exists>r. experience_loop low ps = Inr r"
proof (induction ps)
  case Nil
  then show ?case by simp
next
  case (Cons p ps)
  show ?case
  proof (cases "re_search p low")
    case None
    with Cons show ?thesis by simp
  next
    case (Some m)
    from Cons.prems have "captures ''1'' p" by simp
    from re_search_group_plain [OF this Some] obtain v where v: "group m ''1'' = Some v" ..
    show ?thesis
    proof (cases "py_int v")
      case (Inl e)
      then have "e = ValueError" by (rule py_int_raises)
      with Inl Some v Cons show ?thesis by simp
    next
      case (Inr years)
      with Some v show ?thesis by simp
    qed
  qed
qed

lemma captures_invoice_number: "\<forall>p \<in> set invoice_number_patterns. captures ''1'' p"
  by (simp add: invoice_number_patterns_def amount_patterns_def experience_patterns_def
      account_number_pattern_def usage_pattern_def company_pattern_def colon_then_id_def
      money_def many_def many1_def)

lemma captures_amount: "\<forall>p \<in> set amount_patterns. captures ''1'' p"
  by (simp add: invoice_number_patterns_def amount_patterns_def experience_patterns_def
      account_number_pattern_def usage_pattern_def company_pattern_def colon_then_id_def
      money_def many_def many1_def)

lemma captures_experience: "\<forall>p \<in> set experience_patterns. captures ''1'' p"
  by (simp add: invoice_number_patterns_def amount_patterns_def experience_patterns_def
      account_number_pattern_def usage_pattern_def company_pattern_def colon_then_id_def
      money_def many_def many1_def)

lemma captures_account: "captures ''1'' account_number_pattern"
  by (simp add: invoice_number_patterns_def amount_patterns_def experience_patterns_def
      account_number_pattern_def usage_pattern_def company_pattern_def colon_then_id_def
      money_def many_def many1_def)

lemma captures_usage: "captures ''1'' usage_pattern"
  by (simp add: invoice_number_patterns_def amount_patterns_def experience_patterns_def
      account_number_pattern_def usage_pattern_def company_pattern_def colon_then_id_def
      money_def many_def many1_def)

lemma captures_company: "captures ''1'' company_pattern"
  by (simp add: invoice_number_patterns_def amount_patterns_def experience_patterns_def
      account_number_pattern_def usage_pattern_def company_pattern_def colon_then_id_def
      money_def many_def many1_def)

lemma extract_date_total: "\<exists>r. extract_date text = Inr r"
  by (simp add: extract_date_def extract_date_loop_first)

lemma extract_with_patterns_total:
  "\<forall>p \<in> set ps. captures ''1'' p \<Longrightarrow> \<exists>r. extract_with_patterns text ps = Inr r"
  unfolding extract_with_patterns_def by (rule with_patterns_loop_total)

lemma extract_amount_total: "\<exists>r. extract_amount text = Inr r"
  unfolding extract_amount_def by (rule amount_loop_total) (rule captures_amount)

lemma extract_experience_years_total: "\<exists>r. extract_experience_years text = Inr r"
  unfolding extract_experience_years_def
  by (rule experience_loop_total) (rule captures_experience)

lemma extract_company_name_total: "\<exists>r. extract_company_name text = Inr r"
proof (cases "re_search company_pattern text")
  case None
  then show ?thesis by (simp add: extract_company_name_def)
next
  case (Some m)
  from re_search_group_plain [OF captures_company Some]
  obtain v where "group m ''1'' = Some v" ..
  with Some show ?thesis by (simp add: extract_company_name_def group1_def)
qed

lemma extract_usage_total: "\<exists>r. extract_usage text = Inr r"
proof (cases "re_search usage_pattern (lower text)")
  case None
  then show ?thesis by (simp add: extract_usage_def)
next
  case (Some m)
  from re_search_group_plain [OF captures_usage Some]
  obtain v where v: "group m ''1'' = Some v" ..
  show ?thesis
  proof (cases "py_float v")
    case (Inl e)
    then have "e = ValueError" by (rule py_float_raises)
    with Inl Some v show ?thesis by (simp add: extract_usage_def)
  next
    case (Inr usage)
    with Some v show ?thesis by (simp add: extract_usage_def)
  qed
qed

lemma extract_invoice_total: "\<exists>data. extract_invoice text = Inr data"
proof -
  from extract_with_patterns_total [OF captures_invoice_number]
  obtain invoice_number where "extract_with_patterns text invoice_number_patterns = Inr invoice_number" ..
  moreover from extract_date_total obtain date where "extract_date text = Inr date" ..
  moreover from extract_company_name_total
  obtain company where "extract_company_name text = Inr company" ..
  moreover from extract_amount_total obtain amount where "extract_amount text = Inr amount" ..
  ultimately show ?thesis by (simp add: extract_invoice_def)
qed

lemma extract_resume_total: "\<exists>data. extract_resume text = Inr data"
proof -
  from extract_experience_years_total
  obtain experience where "extract_experience_years text = Inr experience" ..
  then show ?thesis by (simp add: extract_resume_def)
qed

lemma extract_utility_bill_total: "\<exists>data. extract_utility_bill text = Inr data"
proof -
  have "\<forall>p \<in> set [account_number_pattern]. captures ''1'' p"
    by (simp add: captures_account)
  from extract_with_patterns_total [OF this]
  obtain account where "extract_with_patterns text [account_number_pattern] = Inr account" ..
  moreover from extract_date_total obtain date where "extract_date text = Inr date" ..
  moreover from extract_usage_total obtain usage where "extract_usage text = Inr usage" ..
  moreover from extract_amount_total obtain amount where "extract_amount text = Inr amount" ..
  ultimately show ?thesis by (simp add: extract_utility_bill_def)
qed

text \<open>
  C5. For every text and every label, extraction returns a field mapping and raises no
  exception; for every label other than Invoice, Resume and Utility Bill (Other and
  Unclassifiable among them) the mapping is empty.
\<close>

theorem extract_never_raises:
  "(\<exists>data. extract_by_type text doc_type = Inr data)
   \<and> (doc_type \<noteq> ''Invoice'' \<and> doc_type \<noteq> ''Resume'' \<and> doc_type \<noteq> ''Utility Bill'' \<longrightarrow>
        extract_by_type text doc_type = Inr [])"
  using extract_invoice_total [of "text"] extract_resume_total [of "text"]
    extract_utility_bill_total [of "text"]
  by (simp add: extract_by_type_def)

theorem extract_never_raises_witness:
  "extract_by_type ''total: ,,, 99-99-9999 kwh'' ''Other'' = Inr []
   \<and> extract_by_type ''total: ,,, 99-99-9999 kwh'' ''Unclassifiable'' = Inr []
   \<and> (\<exists>data. extract_by_type ''total: ,,, 99-99-9999 kwh'' ''Invoice'' = Inr data)"
  using extract_never_raises [of "''total: ,,, 99-99-9999 kwh''" "''Other''"]
    extract_never_raises [of "''total: ,,, 99-99-9999 kwh''" "''Unclassifiable''"]
    extract_never_raises [of "''total: ,,, 99-99-9999 kwh''" "''Invoice''"]
  by simp


section \<open>The upload operation\<close>

text \<open>
  C10. The check of the file name is the exact suffix \<open>.pdf\<close>: for every file name that
  does not end in these four characters (names ending in \<open>.PDF\<close> or \<open>.Pdf\<close> among them)
  the upload is answered with the status 400, and the world is left as it was: no file
  is saved, and no classification, extraction or indexing has run.
\<close>

theorem upload_rejects_other_suffix:
  "\<not> suffix ''.pdf'' file_name \<Longrightarrow>
     upload_document env w file_name content index_name
       = (Inl (HTTPException 400 ''Only PDF files are supported''), w)"
  by (simp add: upload_document_def upload_try_def)

theorem upload_rejects_other_suffix_witness:
  "\<not> suffix ''.pdf'' ''REPORT.PDF''
   \<and> upload_document demo_env world_init ''REPORT.PDF'' ''%PDF-1.7'' ''default''
       = (Inl (HTTPException 400 ''Only PDF files are supported''), world_init)
   \<and> \<not> suffix ''.pdf'' ''scan.Pdf''
   \<and> upload_document demo_env world_init ''scan.Pdf'' ''%PDF-1.7'' ''default''
       = (Inl (HTTPException 400 ''Only PDF files are supported''), world_init)"
proof -
  have upper: "\<not> suffix ''.pdf'' ''REPORT.PDF''" and mixed: "\<not> suffix ''.pdf'' ''scan.Pdf''"
    by (simp_all add: suffix_to_prefix)
  from upper mixed
    upload_rejects_other_suffix [OF upper, of demo_env world_init "''%PDF-1.7''" "''default''"]
    upload_rejects_other_suffix [OF mixed, of demo_env world_init "''%PDF-1.7''" "''default''"]
  show ?thesis by simp
qed

end
